theory Spec2Isabelle
  imports Complex_Main "HOL-Library.AList"
begin

section \<open>Values, documents, errors\<close>

text \<open>
  The Python exceptions that the modelled code can raise. \<open>InvalidOperation\<close> and
  \<open>BulkWriteError\<close> are pymongo's, \<open>HTTPException\<close> is the Discord client's (a failed
  history request).
\<close>

datatype error = IndexError | KeyError | TypeError | AttributeError | InvalidOperation
  | BulkWriteError | HTTPException

text \<open>
  A stateful operation either returns a value or raises; in both cases the store it worked
  on is left in some state, which the outcome carries.
\<close>

datatype ('a, 's) outcome = Return 'a 's | Raise error 's

text \<open>
  The converted messages are plain Python dicts. A dict is an association list with
  distinct keys in insertion order; \<open>map_of\<close> is the lookup and \<open>AList.update\<close> the
  assignment \<open>d[k] = v\<close> (it overwrites in place or appends a new key).
\<close>

datatype val = VNone | VBool bool | VInt int | VStr string
  | VList "val list" | VDict "(string \<times> val) list"

type_synonym doc = "(string \<times> val) list"

text \<open>Python truthiness, as used by \<open>if x:\<close>.\<close>

fun truthy :: "val \<Rightarrow> bool" where
  "truthy VNone = False"
| "truthy (VBool b) = b"
| "truthy (VInt i) = (i \<noteq> 0)"
| "truthy (VStr s) = (s \<noteq> [])"
| "truthy (VList xs) = (xs \<noteq> [])"
| "truthy (VDict d) = (d \<noteq> [])"

text \<open>Python's \<open>v == i\<close> for an integer \<open>i\<close>: \<open>True == 1\<close> and \<open>False == 0\<close> hold.\<close>

fun py_eq_int :: "val \<Rightarrow> int \<Rightarrow> bool" where
  "py_eq_int (VInt j) i = (j = i)"
| "py_eq_int (VBool b) i = (i = (if b then 1 else 0))"
| "py_eq_int v i = False"

text \<open>\<open>d[k]\<close>: a missing key raises KeyError; indexing a non-dict is an error too.\<close>

definition getitem :: "val \<Rightarrow> string \<Rightarrow> error + val" where
  "getitem v k =
     (case v of
        VDict d \<Rightarrow> (case map_of d k of None \<Rightarrow> Inl KeyError | Some x \<Rightarrow> Inr x)
      | _ \<Rightarrow> Inl KeyError)"

text \<open>Python's \<open>int(x)\<close> on a float truncates towards zero.\<close>

definition py_int :: "real \<Rightarrow> int" where
  "py_int x = (if 0 \<le> x then \<lfloor>x\<rfloor> else \<lceil>x\<rceil>)"


section \<open>The MongoDB collection operations the store uses\<close>

text \<open>
  A collection is the list of its documents in insertion order (the \<open>_id\<close> field that
  the server adds is left out). A filter is a dict of equality conditions. Only the update
  operators that the source uses are interpreted: \<open>$set\<close>, \<open>$setOnInsert\<close> and
  \<open>$addToSet\<close>.
\<close>

fun matches :: "doc \<Rightarrow> doc \<Rightarrow> bool" where
  "matches [] d = True"
| "matches ((k, v) # flt) d = (map_of d k = Some v \<and> matches flt d)"

fun find_one :: "doc \<Rightarrow> doc list \<Rightarrow> doc option" where
  "find_one flt [] = None"
| "find_one flt (d # ds) = (if matches flt d then Some d else find_one flt ds)"

fun set_fields :: "doc \<Rightarrow> doc \<Rightarrow> doc" where
  "set_fields [] d = d"
| "set_fields ((k, v) # fs) d = set_fields fs (AList.update k v d)"

text \<open>
  \<open>$addToSet\<close> creates the array field when it is missing, appends the value when the
  array does not hold it yet, and is a write error on a field that is not an array.
\<close>

fun add_to_set :: "doc \<Rightarrow> doc \<Rightarrow> error + doc" where
  "add_to_set [] d = Inr d"
| "add_to_set ((k, v) # fs) d =
     (case map_of d k of
        None \<Rightarrow> add_to_set fs (AList.update k (VList [v]) d)
      | Some (VList xs) \<Rightarrow>
          add_to_set fs (if v \<in> set xs then d else AList.update k (VList (xs @ [v])) d)
      | Some _ \<Rightarrow> Inl BulkWriteError)"

definition operator_fields :: "doc \<Rightarrow> string \<Rightarrow> doc" where
  "operator_fields upd opr = (case map_of upd opr of Some (VDict fs) \<Rightarrow> fs | _ \<Rightarrow> [])"

definition apply_update :: "bool \<Rightarrow> doc \<Rightarrow> doc \<Rightarrow> error + doc" where
  "apply_update inserting upd d =
     (let d1 = set_fields (operator_fields upd ''$set'') d;
          d2 = (if inserting then set_fields (operator_fields upd ''$setOnInsert'') d1 else d1)
      in add_to_set (operator_fields upd ''$addToSet'') d2)"

text \<open>
  \<open>UpdateOne(filter, update, upsert)\<close>: the first matching document is updated; with
  no match and \<open>upsert\<close>, a new document is built from the filter's fields and the update
  and inserted.
\<close>

datatype request = UpdateOne doc doc bool

fun update_one :: "doc \<Rightarrow> doc \<Rightarrow> bool \<Rightarrow> doc list \<Rightarrow> error + doc list" where
  "update_one flt upd upsert [] =
     (if upsert
      then (case apply_update True upd flt of Inl e \<Rightarrow> Inl e | Inr d \<Rightarrow> Inr [d])
      else Inr [])"
| "update_one flt upd upsert (d # ds) =
     (if matches flt d
      then (case apply_update False upd d of Inl e \<Rightarrow> Inl e | Inr d' \<Rightarrow> Inr (d' # ds))
      else (case update_one flt upd upsert ds of Inl e \<Rightarrow> Inl e | Inr ds' \<Rightarrow> Inr (d # ds')))"

text \<open>
  An ordered bulk write applies its requests in order and stops at the first one that
  fails, keeping the writes made before it. pymongo refuses an empty request list with
  InvalidOperation (the source guards its second bulk write with \<open>if replies:\<close>).
\<close>

fun apply_requests :: "request list \<Rightarrow> doc list \<Rightarrow> (unit, doc list) outcome" where
  "apply_requests [] coll = Return () coll"
| "apply_requests (UpdateOne flt upd upsert # rs) coll =
     (case update_one flt upd upsert coll of
        Inl e \<Rightarrow> Raise e coll
      | Inr coll' \<Rightarrow> apply_requests rs coll')"

definition bulk_write :: "request list \<Rightarrow> doc list \<Rightarrow> (unit, doc list) outcome" where
  "bulk_write rs coll = (if rs = [] then Raise InvalidOperation coll else apply_requests rs coll)"


section \<open>The Discord objects the scraper reads\<close>

text \<open>
  A \<open>Message\<close> with the attributes the converters and the data manager read:
  \<open>msg_channel_id\<close> is \<open>message.channel.id\<close>, \<open>msg_channel_type\<close> is
  \<open>str(message.channel.type)\<close>, \<open>msg_type\<close> is the name of the \<open>MessageType\<close>
  member, \<open>msg_attachments\<close> and \<open>msg_embeds\<close> are the \<open>to_dict()\<close> forms,
  \<open>msg_reference\<close> is \<open>message.reference.to_dict()\<close> when the message has a reference,
  \<open>msg_has_thread\<close> is \<open>message.flags.has_thread\<close>. Time stamps are integers.
\<close>

record message =
  msg_id :: int
  msg_channel_id :: int
  msg_channel_type :: string
  msg_type :: string
  msg_content :: string
  msg_created_at :: int
  msg_edited_at :: "int option"
  msg_attachments :: "val list"
  msg_embeds :: "val list"
  msg_author_id :: int
  msg_reference :: "doc option"
  msg_has_thread :: bool

definition thread_created :: string where
  "thread_created = ''thread_created''"

text \<open>
  A \<open>Thread\<close>; \<open>thread_history\<close> is what iterating \<open>thread.history()\<close> yields, or the
  error the request raises.
\<close>

record thread =
  thread_id :: int
  thread_name :: string
  thread_created_at :: int
  thread_message_count :: int
  thread_owner_id :: int
  thread_history :: "error + message list"

text \<open>
  A channel: all its messages, oldest first (or the error a history request raises), and
  its thread cache, \<open>channel.get_thread(message_id)\<close>.
\<close>

record channel =
  channel_messages :: "error + message list"
  get_thread :: "int \<Rightarrow> thread option"

text \<open>The client: \<open>client.get_channel(channel_id)\<close> is a channel or None.\<close>

type_synonym client = "int \<Rightarrow> channel option"

text \<open>
  \<open>channel.history(limit, after, oldest_first)\<close>: the messages with an identifier above
  \<open>after\<close>, at most \<open>limit\<close> of them, oldest first when \<open>oldest_first\<close> is true;
  when \<open>oldest_first\<close> is None the order is oldest first exactly if \<open>after\<close> is given.
\<close>

definition history :: "channel \<Rightarrow> nat \<Rightarrow> int option \<Rightarrow> bool option \<Rightarrow> error + message list" where
  "history ch n after oldest_first =
     (case channel_messages ch of
        Inl e \<Rightarrow> Inl e
      | Inr every \<Rightarrow>
          (let selected = (case after of None \<Rightarrow> every
                           | Some a \<Rightarrow> filter (\<lambda>m. a < msg_id m) every);
               reverse = (case oldest_first of None \<Rightarrow> after \<noteq> None | Some b \<Rightarrow> b)
           in Inr (take n (if reverse then selected else rev selected))))"


section \<open>Message converters\<close>

text \<open>
  The converters' \<open>authors\<close> set is reporting state that no store or frontier operation
  reads; it is left out. \<open>convert_message\<close> calls itself on the messages of a thread
  without a thread argument, so the recursion is one level deep and is written out.
\<close>

definition opt_int :: "int option \<Rightarrow> val" where
  "opt_int x = (case x of None \<Rightarrow> VNone | Some i \<Rightarrow> VInt i)"

definition thread_obj :: "thread \<Rightarrow> val list \<Rightarrow> val" where
  "thread_obj t msgs = VDict
     [(''id'', VInt (thread_id t)),
      (''name'', VStr (thread_name t)),
      (''created_timestamp'', VInt (thread_created_at t)),
      (''message_count'', VInt (thread_message_count t)),
      (''owner_id'', VInt (thread_owner_id t)),
      (''messages'', VList msgs)]"

definition simple_message_obj :: "message \<Rightarrow> doc" where
  "simple_message_obj m =
     (let message_obj =
        [(''channel_id'', VInt (msg_channel_id m)),
         (''channel_type'', VStr (msg_channel_type m)),
         (''message_id'', VInt (msg_id m)),
         (''message_content'', VStr (msg_content m)),
         (''timestamp'', VInt (msg_created_at m)),
         (''edited_timestamp'', opt_int (msg_edited_at m)),
         (''attachments'', VList (msg_attachments m)),
         (''embeds'', VList (msg_embeds m)),
         (''author_id'', VInt (msg_author_id m)),
         (''reply_to'', VNone),
         (''thread'', VNone),
         (''processed'', VBool False)]
      in case msg_reference m of
           None \<Rightarrow> message_obj
         | Some r \<Rightarrow> AList.update ''reply_to'' (VDict r) message_obj)"

definition simple_convert_message :: "message \<Rightarrow> thread option \<Rightarrow> error + doc" where
  "simple_convert_message m thread =
     (let message_obj = simple_message_obj m
      in case thread of
           None \<Rightarrow> Inr message_obj
         | Some t \<Rightarrow>
             (case thread_history t of
                Inl e \<Rightarrow> Inl e
              | Inr xs \<Rightarrow>
                  Inr (AList.update ''thread''
                         (thread_obj t (map (\<lambda>x. VDict (simple_message_obj x)) xs))
                         message_obj)))"

definition mongo_message_obj :: "message \<Rightarrow> doc" where
  "mongo_message_obj m =
     (let message_obj =
        [(''channel_id'', VInt (msg_channel_id m)),
         (''channel_type'', VStr (msg_channel_type m)),
         (''message_id'', VInt (msg_id m)),
         (''message_type'', VStr (''MessageType.'' @ msg_type m)),
         (''timestamp'', VInt (msg_created_at m)),
         (''edited_timestamp'', opt_int (msg_edited_at m)),
         (''attachments'', VList (msg_attachments m)),
         (''embeds'', VList (msg_embeds m)),
         (''author_id'', VInt (msg_author_id m)),
         (''reply_to'', VNone),
         (''thread'', VNone)];
          message_obj1 = (case msg_reference m of
                            None \<Rightarrow> message_obj
                          | Some r \<Rightarrow> AList.update ''reply_to'' (VDict r) message_obj)
      in case msg_edited_at m of
           None \<Rightarrow> message_obj1
         | Some t \<Rightarrow> AList.update ''edited_content'' (VStr (msg_content m)) message_obj1)"

definition mongo_updater :: "doc \<Rightarrow> message \<Rightarrow> doc" where
  "mongo_updater message_obj m =
     [(''$set'', VDict message_obj),
      (''$setOnInsert'', VDict [(''message_content'', VStr (msg_content m)),
                                (''processed'', VBool False)])]"

definition mongo_convert_message :: "message \<Rightarrow> thread option \<Rightarrow> error + doc" where
  "mongo_convert_message m thread =
     (let message_obj = mongo_message_obj m
      in case thread of
           None \<Rightarrow> Inr (mongo_updater message_obj m)
         | Some t \<Rightarrow>
             (case thread_history t of
                Inl e \<Rightarrow> Inl e
              | Inr xs \<Rightarrow>
                  Inr (mongo_updater
                         (AList.update ''thread''
                            (thread_obj t
                               (map (\<lambda>x. VDict (mongo_updater (mongo_message_obj x) x)) xs))
                            message_obj) m)))"

datatype converter = SimpleMessageConverter | MongoMessageConverter

fun converter_convert_message :: "converter \<Rightarrow> message \<Rightarrow> thread option \<Rightarrow> error + doc" where
  "converter_convert_message SimpleMessageConverter = simple_convert_message"
| "converter_convert_message MongoMessageConverter = mongo_convert_message"


section \<open>Stores\<close>

text \<open>A frontier is the dict of the \<open>Frontier\<close> TypedDict; \<open>d.get(k, default)\<close>:\<close>

definition dict_get :: "doc \<Rightarrow> string \<Rightarrow> val \<Rightarrow> val" where
  "dict_get d k dflt = (case map_of d k of None \<Rightarrow> dflt | Some v \<Rightarrow> v)"

fun map_res :: "('a \<Rightarrow> error + 'b) \<Rightarrow> 'a list \<Rightarrow> error + 'b list" where
  "map_res f [] = Inr []"
| "map_res f (x # xs) =
     (case f x of
        Inl e \<Rightarrow> Inl e
      | Inr y \<Rightarrow> (case map_res f xs of Inl e \<Rightarrow> Inl e | Inr ys \<Rightarrow> Inr (y # ys)))"

fun lift_outcome :: "('s \<Rightarrow> 't) \<Rightarrow> ('a, 's) outcome \<Rightarrow> ('a, 't) outcome" where
  "lift_outcome f (Return x s) = Return x (f s)"
| "lift_outcome f (Raise e s) = Raise e (f s)"

subsection \<open>MongoStore\<close>

text \<open>
  The collections \<open>messages\<close> and \<open>frontiers\<close>; the collections \<open>channels\<close>,
  \<open>authors\<close> and \<open>guilds\<close> are never read or written. The unique index on
  \<open>message_id\<close> is the precondition \<open>unique_message_id\<close> of the theorems that need it:
  every write of the store is an upsert that filters on \<open>message_id\<close>.
\<close>

record mongo_store =
  messages :: "doc list"
  frontiers :: "doc list"

text \<open>\<open>message["$set"][k]\<close>\<close>

definition set_item :: "doc \<Rightarrow> string \<Rightarrow> error + val" where
  "set_item message k =
     (case getitem (VDict message) ''$set'' of Inl e \<Rightarrow> Inl e | Inr st \<Rightarrow> getitem st k)"

definition message_request :: "doc \<Rightarrow> error + request" where
  "message_request message =
     (case set_item message ''message_id'' of
        Inl e \<Rightarrow> Inl e
      | Inr i \<Rightarrow> Inr (UpdateOne [(''message_id'', i)] message True))"

fun reply_requests :: "doc list \<Rightarrow> error + request list" where
  "reply_requests [] = Inr []"
| "reply_requests (message # rest) =
     (case set_item message ''reply_to'' of
        Inl e \<Rightarrow> Inl e
      | Inr reply_to \<Rightarrow>
          if truthy reply_to
          then (case getitem reply_to ''message_id'' of
                  Inl e \<Rightarrow> Inl e
                | Inr parent \<Rightarrow>
                    (case set_item message ''message_id'' of
                       Inl e \<Rightarrow> Inl e
                     | Inr i \<Rightarrow>
                         (case reply_requests rest of
                            Inl e \<Rightarrow> Inl e
                          | Inr rs \<Rightarrow>
                              Inr (UpdateOne [(''message_id'', parent)]
                                     [(''$addToSet'', VDict [(''replies'', i)])] True # rs))))
          else reply_requests rest)"

definition MongoStore_save_messages :: "doc list \<Rightarrow> mongo_store \<Rightarrow> (unit, mongo_store) outcome" where
  "MongoStore_save_messages updaters s =
     (case map_res message_request updaters of
        Inl e \<Rightarrow> Raise e s
      | Inr requests \<Rightarrow>
          (case bulk_write requests (messages s) of
             Raise e coll \<Rightarrow> Raise e (s\<lparr>messages := coll\<rparr>)
           | Return u coll \<Rightarrow>
               (case reply_requests updaters of
                  Inl e \<Rightarrow> Raise e (s\<lparr>messages := coll\<rparr>)
                | Inr replies \<Rightarrow>
                    if replies \<noteq> []
                    then lift_outcome (\<lambda>coll'. s\<lparr>messages := coll'\<rparr>) (bulk_write replies coll)
                    else Return () (s\<lparr>messages := coll\<rparr>))))"

definition MongoStore_save_message :: "doc \<Rightarrow> mongo_store \<Rightarrow> (unit, mongo_store) outcome" where
  "MongoStore_save_message updater s = MongoStore_save_messages [updater] s"

definition MongoStore_message_exists :: "mongo_store \<Rightarrow> int \<Rightarrow> bool" where
  "MongoStore_message_exists s message_id =
     (find_one [(''message_id'', VInt message_id)] (messages s) \<noteq> None)"

definition MongoStore_get_frontier :: "mongo_store \<Rightarrow> int \<Rightarrow> doc" where
  "MongoStore_get_frontier s channel_id =
     (case find_one [(''channel_id'', VInt channel_id)] (frontiers s) of
        None \<Rightarrow> []
      | Some d \<Rightarrow> if d \<noteq> [] then d else [])"

definition frontiers_update_one :: "int \<Rightarrow> doc \<Rightarrow> mongo_store \<Rightarrow> (unit, mongo_store) outcome" where
  "frontiers_update_one channel_id fs s =
     (case update_one [(''channel_id'', VInt channel_id)] [(''$set'', VDict fs)] True
             (frontiers s) of
        Inl e \<Rightarrow> Raise e s
      | Inr coll \<Rightarrow> Return () (s\<lparr>frontiers := coll\<rparr>))"

definition MongoStore_update_frontier :: "int \<Rightarrow> int \<Rightarrow> mongo_store \<Rightarrow> (unit, mongo_store) outcome" where
  "MongoStore_update_frontier channel_id new_message_id s =
     frontiers_update_one channel_id [(''id'', VInt new_message_id)] s"

definition MongoStore_set_frontier :: "int \<Rightarrow> doc \<Rightarrow> mongo_store \<Rightarrow> (unit, mongo_store) outcome" where
  "MongoStore_set_frontier channel_id data s = frontiers_update_one channel_id data s"

subsection \<open>BasicStore\<close>

text \<open>
  The list \<open>self.messages\<close> and the dict \<open>self.frontier\<close>. \<open>get_frontier\<close> hands
  out the stored dict itself; its only caller that changes the dict, \<open>finish_frontier\<close>,
  stores it back at once, so the store is modelled by value.
\<close>

record basic_store =
  basic_messages :: "doc list"
  frontier :: "int \<Rightarrow> doc option"

definition BasicStore_init :: basic_store where
  "BasicStore_init = \<lparr>basic_messages = [], frontier = Map.empty\<rparr>"

definition BasicStore_save_message :: "doc \<Rightarrow> basic_store \<Rightarrow> basic_store" where
  "BasicStore_save_message message s = s\<lparr>basic_messages := basic_messages s @ [message]\<rparr>"

definition BasicStore_save_messages :: "doc list \<Rightarrow> basic_store \<Rightarrow> basic_store" where
  "BasicStore_save_messages msgs s = s\<lparr>basic_messages := basic_messages s @ msgs\<rparr>"

definition BasicStore_get_frontier :: "basic_store \<Rightarrow> int \<Rightarrow> doc" where
  "BasicStore_get_frontier s channel_id =
     (case frontier s channel_id of
        None \<Rightarrow> [(''id'', VNone), (''previous_scan_time'', VInt 0)]
      | Some f \<Rightarrow> f)"

definition BasicStore_set_frontier :: "int \<Rightarrow> doc \<Rightarrow> basic_store \<Rightarrow> basic_store" where
  "BasicStore_set_frontier channel_id data s = s\<lparr>frontier := (frontier s)(channel_id \<mapsto> data)\<rparr>"

definition BasicStore_update_frontier :: "int \<Rightarrow> int \<Rightarrow> basic_store \<Rightarrow> basic_store" where
  "BasicStore_update_frontier channel_id new_message_id s =
     s\<lparr>frontier := (frontier s)(channel_id \<mapsto>
          AList.update ''id'' (VInt new_message_id) (BasicStore_get_frontier s channel_id))\<rparr>"

text \<open>
  \<open>any(message_data["message_id"] == message_id for message_data in self.messages)\<close>
  stops at the first match and raises KeyError at a record without the key.
\<close>

fun any_message_id :: "int \<Rightarrow> doc list \<Rightarrow> error + bool" where
  "any_message_id message_id [] = Inr False"
| "any_message_id message_id (message_data # rest) =
     (case getitem (VDict message_data) ''message_id'' of
        Inl e \<Rightarrow> Inl e
      | Inr v \<Rightarrow> if py_eq_int v message_id then Inr True else any_message_id message_id rest)"

definition BasicStore_message_exists :: "basic_store \<Rightarrow> int \<Rightarrow> error + bool" where
  "BasicStore_message_exists s message_id = any_message_id message_id (basic_messages s)"

subsection \<open>The store behind the DataStore interface\<close>

datatype store = MongoStore mongo_store | BasicStore basic_store

fun store_save_message :: "doc \<Rightarrow> store \<Rightarrow> (unit, store) outcome" where
  "store_save_message r (MongoStore s) = lift_outcome MongoStore (MongoStore_save_message r s)"
| "store_save_message r (BasicStore s) = Return () (BasicStore (BasicStore_save_message r s))"

fun store_save_messages :: "doc list \<Rightarrow> store \<Rightarrow> (unit, store) outcome" where
  "store_save_messages rs (MongoStore s) = lift_outcome MongoStore (MongoStore_save_messages rs s)"
| "store_save_messages rs (BasicStore s) = Return () (BasicStore (BasicStore_save_messages rs s))"

fun store_message_exists :: "store \<Rightarrow> int \<Rightarrow> error + bool" where
  "store_message_exists (MongoStore s) i = Inr (MongoStore_message_exists s i)"
| "store_message_exists (BasicStore s) i = BasicStore_message_exists s i"

fun store_get_frontier :: "store \<Rightarrow> int \<Rightarrow> doc" where
  "store_get_frontier (MongoStore s) c = MongoStore_get_frontier s c"
| "store_get_frontier (BasicStore s) c = BasicStore_get_frontier s c"

fun store_update_frontier :: "int \<Rightarrow> int \<Rightarrow> store \<Rightarrow> (unit, store) outcome" where
  "store_update_frontier c i (MongoStore s) = lift_outcome MongoStore (MongoStore_update_frontier c i s)"
| "store_update_frontier c i (BasicStore s) = Return () (BasicStore (BasicStore_update_frontier c i s))"

fun store_set_frontier :: "int \<Rightarrow> doc \<Rightarrow> store \<Rightarrow> (unit, store) outcome" where
  "store_set_frontier c f (MongoStore s) = lift_outcome MongoStore (MongoStore_set_frontier c f s)"
| "store_set_frontier c f (BasicStore s) = Return () (BasicStore (BasicStore_set_frontier c f s))"


section \<open>DataManager\<close>

text \<open>
  The manager's own fields; its store is the state that the operations below pass along.
  Every operation that calls \<open>time.time()\<close> takes the clock reading as \<open>now\<close>.
\<close>

record data_manager =
  channels :: "int list"
  converter :: converter
  rescan_interval :: "int \<Rightarrow> real option"

definition DataManager_init :: "int list \<Rightarrow> converter \<Rightarrow> data_manager" where
  "DataManager_init target_channels conv =
     \<lparr>channels = target_channels, converter = conv,
      rescan_interval = (\<lambda>channel. if channel \<in> set target_channels then Some 60 else None)\<rparr>"

definition get_frontier :: "store \<Rightarrow> int \<Rightarrow> doc" where
  "get_frontier s channel_id = store_get_frontier s channel_id"

text \<open>
  \<open>DiscordObject(mid)\<close> converts with \<open>int(mid)\<close> and raises TypeError when that
  fails. \<open>int\<close> of a bool is 0 or 1; \<open>int\<close> of a string strips white space, reads an
  optional sign and then decimal digits, with single underscores allowed between digits
  (ASCII only here); \<open>int\<close> of None, a list or a dict fails.
\<close>

definition is_digit :: "char \<Rightarrow> bool" where
  "is_digit c = (48 \<le> (of_char c :: nat) \<and> (of_char c :: nat) \<le> 57)"

definition digit_of :: "char \<Rightarrow> nat" where
  "digit_of c = of_char c - 48"

definition is_space :: "char \<Rightarrow> bool" where
  "is_space c = ((of_char c :: nat) = 32
                 \<or> (9 \<le> (of_char c :: nat) \<and> (of_char c :: nat) \<le> 13)
                 \<or> (28 \<le> (of_char c :: nat) \<and> (of_char c :: nat) \<le> 31))"

fun digits_from :: "nat \<Rightarrow> string \<Rightarrow> nat option" where
  "digits_from acc [] = Some acc"
| "digits_from acc (c # cs) =
     (if is_digit c then digits_from (10 * acc + digit_of c) cs
      else if c = CHR ''_''
      then (case cs of
              [] \<Rightarrow> None
            | d # ds \<Rightarrow> if is_digit d then digits_from (10 * acc + digit_of d) ds else None)
      else None)"

definition unsigned_int_str :: "string \<Rightarrow> nat option" where
  "unsigned_int_str t =
     (case t of [] \<Rightarrow> None
      | c # cs \<Rightarrow> if is_digit c then digits_from (digit_of c) cs else None)"

definition py_int_str :: "string \<Rightarrow> int option" where
  "py_int_str s =
     (let t = rev (dropWhile is_space (rev (dropWhile is_space s)))
      in case t of
           [] \<Rightarrow> None
         | c # cs \<Rightarrow>
             if c = CHR ''-'' then map_option (\<lambda>n. - int n) (unsigned_int_str cs)
             else if c = CHR ''+'' then map_option int (unsigned_int_str cs)
             else map_option int (unsigned_int_str t))"

fun py_int_val :: "val \<Rightarrow> int option" where
  "py_int_val (VInt i) = Some i"
| "py_int_val (VBool b) = Some (if b then 1 else 0)"
| "py_int_val (VStr s) = py_int_str s"
| "py_int_val v = None"

definition get_frontier_message :: "store \<Rightarrow> int \<Rightarrow> error + int option" where
  "get_frontier_message s channel_id =
     (let mid = dict_get (get_frontier s channel_id) ''id'' VNone
      in if truthy mid
         then (case py_int_val mid of None \<Rightarrow> Inl TypeError | Some i \<Rightarrow> Inr (Some i))
         else Inr None)"

fun py_lt_real :: "val \<Rightarrow> real \<Rightarrow> error + bool" where
  "py_lt_real (VInt t) x = Inr (real_of_int t < x)"
| "py_lt_real (VBool b) x = Inr ((if b then 1 else 0) < x)"
| "py_lt_real v x = Inl TypeError"

definition should_rescan :: "data_manager \<Rightarrow> real \<Rightarrow> store \<Rightarrow> int \<Rightarrow> error + bool" where
  "should_rescan dm now s channel_id =
     (let timestamp = dict_get (get_frontier s channel_id) ''previous_scan_time'' (VInt 0)
      in case rescan_interval dm channel_id of
           None \<Rightarrow> Inl KeyError
         | Some interval \<Rightarrow> py_lt_real timestamp (now - interval))"

fun targets_of :: "data_manager \<Rightarrow> real \<Rightarrow> store \<Rightarrow> int list \<Rightarrow> error + int list" where
  "targets_of dm now s [] = Inr []"
| "targets_of dm now s (x # xs) =
     (case get_frontier_message s x of
        Inl e \<Rightarrow> Inl e
      | Inr fm \<Rightarrow>
          (case (if fm \<noteq> None then Inr True else should_rescan dm now s x) of
             Inl e \<Rightarrow> Inl e
           | Inr keep \<Rightarrow>
               (case targets_of dm now s xs of
                  Inl e \<Rightarrow> Inl e
                | Inr rest \<Rightarrow> Inr (if keep then x # rest else rest))))"

definition get_targets :: "data_manager \<Rightarrow> real \<Rightarrow> store \<Rightarrow> error + int list" where
  "get_targets dm now s = targets_of dm now s (channels dm)"

text \<open>
  \<open>message.channel\<close> is found through the client by the message's channel identifier;
  \<open>get_thread\<close> gives the cached thread of the message or None.
\<close>

definition convert_message :: "data_manager \<Rightarrow> client \<Rightarrow> message \<Rightarrow> error + doc" where
  "convert_message dm cl m =
     (if msg_has_thread m
      then (case cl (msg_channel_id m) of
              None \<Rightarrow> Inl AttributeError
            | Some ch \<Rightarrow> converter_convert_message (converter dm) m (get_thread ch (msg_id m)))
      else converter_convert_message (converter dm) m None)"

definition save_message :: "data_manager \<Rightarrow> client \<Rightarrow> message \<Rightarrow> bool \<Rightarrow> store \<Rightarrow> (unit, store) outcome" where
  "save_message dm cl m update_frontier s =
     (case (if msg_type m \<noteq> thread_created
            then (case convert_message dm cl m of
                    Inl e \<Rightarrow> Raise e s
                  | Inr converted_message \<Rightarrow> store_save_message converted_message s)
            else Return () s) of
        Raise e s1 \<Rightarrow> Raise e s1
      | Return u s1 \<Rightarrow>
          if update_frontier
          then store_update_frontier (msg_channel_id m) (msg_id m) s1
          else Return () s1)"

definition save_messages :: "data_manager \<Rightarrow> client \<Rightarrow> message list \<Rightarrow> bool \<Rightarrow> store \<Rightarrow> (unit, store) outcome" where
  "save_messages dm cl msgs update_frontier s =
     (case map_res (convert_message dm cl) (filter (\<lambda>m. msg_type m \<noteq> thread_created) msgs) of
        Inl e \<Rightarrow> Raise e s
      | Inr converted_messages \<Rightarrow>
          (case store_save_messages converted_messages s of
             Raise e s1 \<Rightarrow> Raise e s1
           | Return u s1 \<Rightarrow>
               if msgs = [] then Raise IndexError s1
               else (let last_message = last msgs
                     in if update_frontier
                        then store_update_frontier (msg_channel_id last_message)
                               (msg_id last_message) s1
                        else Return () s1)))"

definition finish_frontier :: "real \<Rightarrow> int \<Rightarrow> store \<Rightarrow> (unit, store) outcome" where
  "finish_frontier now channel_id s =
     (let front = get_frontier s channel_id;
          front1 = AList.update ''id'' VNone front;
          front2 = AList.update ''previous_scan_time'' (VInt (py_int now)) front1
      in store_set_frontier channel_id front2 s)"

definition message_exists :: "store \<Rightarrow> int \<Rightarrow> error + bool" where
  "message_exists s message_id = store_message_exists s message_id"


section \<open>Scraper\<close>

record scraper =
  data_manager :: data_manager
  limit :: nat

definition process_messages :: "scraper \<Rightarrow> client \<Rightarrow> message list \<Rightarrow> bool \<Rightarrow> store \<Rightarrow> (unit, store) outcome" where
  "process_messages sc cl msgs update_frontier s =
     save_messages (data_manager sc) cl msgs update_frontier s"

definition process_message :: "scraper \<Rightarrow> client \<Rightarrow> message \<Rightarrow> bool \<Rightarrow> store \<Rightarrow> (unit, store) outcome" where
  "process_message sc cl m update_frontier s =
     save_message (data_manager sc) cl m update_frontier s"

text \<open>
  \<open>_scrape_channel\<close>: the source calls \<open>_process_messages(messages)\<close>, so
  \<open>update_frontier\<close> has its default, False. The result is
  \<open>len(messages) == 0 or len(messages) != self.limit\<close>, with Python's \<open>or\<close> written
  as a conditional.
\<close>

definition scrape_channel :: "scraper \<Rightarrow> client \<Rightarrow> int \<Rightarrow> store \<Rightarrow> (bool, store) outcome" where
  "scrape_channel sc cl channel_id s =
     (case get_frontier_message s channel_id of
        Inl e \<Rightarrow> Raise e s
      | Inr frontier_message \<Rightarrow>
          (case cl channel_id of
             None \<Rightarrow> Raise AttributeError s
           | Some ch \<Rightarrow>
               (case history ch (limit sc) frontier_message (Some True) of
                  Inl e \<Rightarrow> Raise e s
                | Inr msgs \<Rightarrow>
                    (case process_messages sc cl msgs False s of
                       Raise e s1 \<Rightarrow> Raise e s1
                     | Return u s1 \<Rightarrow>
                         Return (if length msgs = 0 then True else length msgs \<noteq> limit sc) s1))))"

text \<open>
  The loop body of \<open>_scrape_unseen_only\<close>: \<open>None\<close> is the \<open>return\<close> inside the loop,
  \<open>Some collected\<close> the list at the normal end of the iteration.
\<close>

fun collect_unseen :: "store \<Rightarrow> message list \<Rightarrow> message list \<Rightarrow> error + message list option" where
  "collect_unseen s [] collected = Inr (Some collected)"
| "collect_unseen s (m # rest) collected =
     (case message_exists s (msg_id m) of
        Inl e \<Rightarrow> Inl e
      | Inr known \<Rightarrow> if known then Inr None else collect_unseen s rest (collected @ [m]))"

definition scrape_unseen_only :: "scraper \<Rightarrow> client \<Rightarrow> int \<Rightarrow> store \<Rightarrow> (unit, store) outcome" where
  "scrape_unseen_only sc cl channel_id s =
     (case cl channel_id of
        None \<Rightarrow> Raise AttributeError s
      | Some ch \<Rightarrow>
          (case history ch (limit sc) None None of
             Inl e \<Rightarrow> Raise e s
           | Inr delivered \<Rightarrow>
               (case collect_unseen s delivered [] of
                  Inl e \<Rightarrow> Raise e s
                | Inr None \<Rightarrow> Return () s
                | Inr (Some msgs) \<Rightarrow> process_messages sc cl msgs False s)))"

fun scrape_unseen_from :: "scraper \<Rightarrow> client \<Rightarrow> real \<Rightarrow> int list \<Rightarrow> store \<Rightarrow> (unit, store) outcome" where
  "scrape_unseen_from sc cl now [] s = Return () s"
| "scrape_unseen_from sc cl now (channel_id # rest) s =
     (case should_rescan (data_manager sc) now s channel_id of
        Inl e \<Rightarrow> Raise e s
      | Inr due \<Rightarrow>
          if due then scrape_unseen_from sc cl now rest s
          else (case scrape_unseen_only sc cl channel_id s of
                  Raise e s1 \<Rightarrow> Raise e s1
                | Return u s1 \<Rightarrow> scrape_unseen_from sc cl now rest s1))"

definition scrape_all_unseen :: "scraper \<Rightarrow> client \<Rightarrow> real \<Rightarrow> store \<Rightarrow> (unit, store) outcome" where
  "scrape_all_unseen sc cl now s = scrape_unseen_from sc cl now (channels (data_manager sc)) s"

text \<open>
  The \<open>while current_channels:\<close> loop of \<open>scrape_all_channels\<close>. It may run forever,
  so the result is an option: \<open>None\<close> is a loop that never ends. \<open>rounds\<close> counts the
  calls of \<open>_scrape_channel\<close> made so far and is returned at the end; \<open>clock k\<close> is the
  reading of \<open>time.time()\<close> in round \<open>k\<close>.
\<close>

definition pop :: "nat \<Rightarrow> 'a list \<Rightarrow> 'a list" where
  "pop i xs = take i xs @ drop (Suc i) xs"

partial_function (option) scrape_loop ::
  "scraper \<Rightarrow> client \<Rightarrow> (nat \<Rightarrow> real) \<Rightarrow> nat \<Rightarrow> int list \<Rightarrow> nat \<Rightarrow> store \<Rightarrow> (nat, store) outcome option"
where
  "scrape_loop sc cl clock rounds current_channels i s =
     (if current_channels = [] then Some (Return rounds s)
      else (let j = i mod length current_channels
            in case scrape_channel sc cl (current_channels ! j) s of
                 Raise e s1 \<Rightarrow> Some (Raise e s1)
               | Return channel_empty s1 \<Rightarrow>
                   if channel_empty
                   then (case finish_frontier (clock rounds) (current_channels ! j) s1 of
                           Raise e s2 \<Rightarrow> Some (Raise e s2)
                         | Return u s2 \<Rightarrow>
                             scrape_loop sc cl clock (Suc rounds) (pop j current_channels) (j + 1) s2)
                   else scrape_loop sc cl clock (Suc rounds) current_channels (j + 1) s1))"

definition scrape_all_channels :: "scraper \<Rightarrow> client \<Rightarrow> real \<Rightarrow> (nat \<Rightarrow> real) \<Rightarrow> store \<Rightarrow> (nat, store) outcome option" where
  "scrape_all_channels sc cl now clock s =
     (case get_targets (data_manager sc) now s of
        Inl e \<Rightarrow> Some (Raise e s)
      | Inr current_channels \<Rightarrow> scrape_loop sc cl clock 0 current_channels 0 s)"


section \<open>Observations and example data\<close>

fun outcome_state :: "('a, 's) outcome \<Rightarrow> 's" where
  "outcome_state (Return x s) = s"
| "outcome_state (Raise e s) = s"

fun returned :: "('a, 's) outcome \<Rightarrow> 'a option" where
  "returned (Return x s) = Some x"
| "returned (Raise e s) = None"

text \<open>The number of stored documents whose \<open>message_id\<close> field is \<open>v\<close>.\<close>

definition count_message_id :: "val \<Rightarrow> doc list \<Rightarrow> nat" where
  "count_message_id v coll = length (filter (matches [(''message_id'', v)]) coll)"

text \<open>A dict has distinct keys; the documents of a store are dicts.\<close>

definition wf_doc :: "doc \<Rightarrow> bool" where
  "wf_doc d = distinct (map fst d)"

fun wf_frontiers :: "store \<Rightarrow> bool" where
  "wf_frontiers (MongoStore s) = list_all wf_doc (frontiers s)"
| "wf_frontiers (BasicStore s) = True"

fun no_frontier :: "store \<Rightarrow> int \<Rightarrow> bool" where
  "no_frontier (MongoStore s) c = (find_one [(''channel_id'', VInt c)] (frontiers s) = None)"
| "no_frontier (BasicStore s) c = (frontier s c = None)"

text \<open>
  One text channel, with identifier 1, whose messages have the given identifiers; no
  message has a thread or is a reply unless said so.
\<close>

definition example_message :: "int \<Rightarrow> message" where
  "example_message i =
     \<lparr>msg_id = i, msg_channel_id = 1, msg_channel_type = ''text'', msg_type = ''default'',
      msg_content = ''hello'', msg_created_at = i, msg_edited_at = None,
      msg_attachments = [], msg_embeds = [], msg_author_id = 100,
      msg_reference = None, msg_has_thread = False\<rparr>"

definition example_channel :: "message list \<Rightarrow> channel" where
  "example_channel msgs = \<lparr>channel_messages = Inr msgs, get_thread = (\<lambda>i. None)\<rparr>"

definition example_client :: "message list \<Rightarrow> client" where
  "example_client msgs = (\<lambda>c. if c = 1 then Some (example_channel msgs) else None)"

definition example_scraper :: "converter \<Rightarrow> nat \<Rightarrow> scraper" where
  "example_scraper conv n = \<lparr>data_manager = DataManager_init [1] conv, limit = n\<rparr>"

definition MongoStore_init :: mongo_store where
  "MongoStore_init = \<lparr>messages = [], frontiers = []\<rparr>"

text \<open>
  What a store holds: its message documents. \<open>replies_ok\<close> says that a document's
  \<open>replies\<close> field, when present, is an array, which is all the store ever writes there;
  \<open>reference_ok\<close> that a message's reference, when it is not empty, names a message.
\<close>

fun stored_messages :: "store \<Rightarrow> doc list" where
  "stored_messages (MongoStore s) = messages s"
| "stored_messages (BasicStore s) = basic_messages s"


definition reference_ok :: "message \<Rightarrow> bool" where
  "reference_ok m =
     (case msg_reference m of
        None \<Rightarrow> True
      | Some r \<Rightarrow> if r = [] then True else map_of r ''message_id'' \<noteq> None)"







text \<open>A \<open>thread_created\<close> notification, a reply to message \<open>p\<close>, a message with a thread.\<close>

definition example_marker :: "int \<Rightarrow> message" where
  "example_marker i = (example_message i)\<lparr>msg_type := thread_created\<rparr>"

definition example_reply :: "int \<Rightarrow> int \<Rightarrow> message" where
  "example_reply i p =
     (example_message i)\<lparr>msg_reference := Some [(''message_id'', VInt p), (''channel_id'', VInt 1)]\<rparr>"

definition example_thread_starter :: "int \<Rightarrow> message" where
  "example_thread_starter i = (example_message i)\<lparr>msg_has_thread := True\<rparr>"

text \<open>A client whose channel 1 caches, for every message, a thread whose history request fails.\<close>

definition failing_thread :: thread where
  "failing_thread =
     \<lparr>thread_id = 50, thread_name = ''t'', thread_created_at = 0, thread_message_count = 1,
      thread_owner_id = 100, thread_history = Inl HTTPException\<rparr>"

definition failing_thread_client :: "message list \<Rightarrow> client" where
  "failing_thread_client msgs =
     (\<lambda>c. if c = 1
          then Some \<lparr>channel_messages = Inr msgs, get_thread = (\<lambda>i. Some failing_thread)\<rparr>
          else None)"

text \<open>
  A batch of two messages, the second a reply; and a message whose reference carries no
  \<open>message_id\<close> (as a channel-follow notification's does).
\<close>

definition example_batch :: "message list" where
  "example_batch = [example_message 4, example_reply 5 3]"

definition example_follow :: "int \<Rightarrow> message" where
  "example_follow i = (example_message i)\<lparr>msg_reference := Some [(''channel_id'', VInt 1)]\<rparr>"

text \<open>Scenario A: a MongoStore whose frontier for channel 1 has the cursor 2.\<close>

definition scenario_A_store :: store where
  "scenario_A_store =
     MongoStore \<lparr>messages = [],
       frontiers = [[(''channel_id'', VInt 1), (''id'', VInt 2), (''previous_scan_time'', VInt 0)]]\<rparr>"

text \<open>Scenario C: the store after the messages 6 and 7 were saved into an empty BasicStore.\<close>

definition scenario_C_store :: store where
  "scenario_C_store =
     outcome_state
       (save_messages (DataManager_init [1] SimpleMessageConverter) (example_client [])
          [example_message 6, example_message 7] False (BasicStore BasicStore_init))"

lemmas conv_defs = simple_convert_message_def simple_message_obj_def mongo_convert_message_def
  mongo_message_obj_def mongo_updater_def opt_int_def thread_obj_def convert_message_def

lemmas ex_defs = example_message_def example_channel_def example_client_def example_scraper_def
  DataManager_init_def BasicStore_init_def MongoStore_init_def example_marker_def
  example_reply_def example_thread_starter_def failing_thread_def failing_thread_client_def
  example_batch_def example_follow_def

lemmas store_defs = get_frontier_message_def get_frontier_def BasicStore_get_frontier_def
  MongoStore_get_frontier_def dict_get_def BasicStore_save_messages_def
  MongoStore_save_messages_def message_request_def set_item_def getitem_def bulk_write_def
  apply_update_def operator_fields_def message_exists_def MongoStore_message_exists_def
  BasicStore_message_exists_def MongoStore_update_frontier_def frontiers_update_one_def
  BasicStore_update_frontier_def MongoStore_set_frontier_def BasicStore_set_frontier_def
  BasicStore_save_message_def MongoStore_save_message_def

lemmas run_defs = scrape_channel_def history_def process_messages_def save_messages_def
  thread_created_def scrape_unseen_only_def get_targets_def should_rescan_def
  finish_frontier_def save_message_def process_message_def


section \<open>Facts about dicts and the collection operations\<close>

lemma map_of_set_fields: "map_of (set_fields fs d) = map_of d ++ map_of (rev fs)"
proof (induction fs arbitrary: d)
  case Nil show ?case by simp
next
  case (Cons kv fs)
  obtain k v where kv: "kv = (k, v)" by (cases kv)
  show ?case unfolding kv
    by (rule ext) (simp add: Cons update_conv' map_add_def split: option.splits)
qed

lemma map_of_rev_distinct: "distinct (map fst xs) \<Longrightarrow> map_of (rev xs) = map_of xs"
proof (induction xs)
  case Nil show ?case by simp
next
  case (Cons kv xs)
  obtain k v where kv: "kv = (k, v)" by (cases kv)
  from Cons.prems have k: "map_of xs k = None" and d: "distinct (map fst xs)"
    by (auto simp: kv map_of_eq_None_iff)
  show ?case unfolding kv
    by (rule ext) (simp add: Cons.IH[OF d] map_add_def k split: option.splits)
qed

lemma apply_update_set_only [simp]:
  "apply_update b [(''$set'', VDict fs)] d = Inr (set_fields fs d)"
  by (simp add: apply_update_def operator_fields_def Let_def)

lemma update_one_set_only:
  "\<exists>coll'. update_one flt [(''$set'', VDict fs)] True coll = Inr coll'"
  by (induction coll) auto

lemma find_one_matches: "find_one flt coll = Some d \<Longrightarrow> matches flt d \<and> d \<in> set coll"
  by (induction coll) (auto split: if_splits)

text \<open>After an upsert that only sets fields, the filter finds the document that was written.\<close>

lemma find_one_after_set:
  assumes "update_one flt [(''$set'', VDict fs)] True coll = Inr coll'"
      and "matches flt (set_fields fs (case find_one flt coll of None \<Rightarrow> flt | Some d \<Rightarrow> d))"
  shows "find_one flt coll' =
           Some (set_fields fs (case find_one flt coll of None \<Rightarrow> flt | Some d \<Rightarrow> d))"
  using assms
proof (induction coll arbitrary: coll')
  case Nil then show ?case by auto
next
  case (Cons d ds)
  show ?case
  proof (cases "matches flt d")
    case True with Cons.prems show ?thesis by auto
  next
    case False
    with Cons.prems obtain ds' where ds': "update_one flt [(''$set'', VDict fs)] True ds = Inr ds'"
      and c: "coll' = d # ds'" by (auto split: sum.splits)
    from Cons.IH[OF ds'] Cons.prems(2) False show ?thesis by (simp add: c)
  qed
qed


text \<open>Upserts that filter on \<open>message_id\<close>, and how many documents carry an identifier.\<close>

lemma matches_message_id [simp]:
  "matches [(''message_id'', v)] d = (map_of d ''message_id'' = Some v)"
  by simp

lemma find_one_None_count:
  "(find_one [(''message_id'', v)] coll = None) = (count_message_id v coll = 0)"
  by (induction coll) (auto simp: count_message_id_def)

lemma update_one_upsert_count:
  assumes good: "\<And>b d. Q d \<Longrightarrow> \<exists>d'. apply_update b upd d = Inr d' \<and> Q d'
                     \<and> (map_of d ''message_id'' = Some w \<longrightarrow> map_of d' ''message_id'' = Some w)"
      and q: "list_all Q coll" and qf: "Q [(''message_id'', w)]"
  shows "\<exists>coll'. update_one [(''message_id'', w)] upd True coll = Inr coll' \<and> list_all Q coll'
           \<and> (\<forall>v. count_message_id v coll' =
                  (if v = w then max 1 (count_message_id w coll) else count_message_id v coll))"
  using q
proof (induction coll)
  case Nil
  from good[OF qf, of True] obtain d' where
    "apply_update True upd [(''message_id'', w)] = Inr d'" "Q d'" "map_of d' ''message_id'' = Some w"
    by auto
  then show ?case by (auto simp: count_message_id_def)
next
  case (Cons d ds)
  then have qd: "Q d" and qds: "list_all Q ds" by simp_all
  show ?case
  proof (cases "map_of d ''message_id'' = Some w")
    case True
    from good[OF qd, of False] True obtain d' where
      "apply_update False upd d = Inr d'" "Q d'" "map_of d' ''message_id'' = Some w"
      by auto
    with True qds show ?thesis by (auto simp: count_message_id_def)
  next
    case False
    from Cons.IH[OF qds] obtain ds' where
      "update_one [(''message_id'', w)] upd True ds = Inr ds'" "list_all Q ds'"
      "\<forall>v. count_message_id v ds' =
            (if v = w then max 1 (count_message_id w ds) else count_message_id v ds)"
      by blast
    with False qd show ?thesis by (auto simp: count_message_id_def)
  qed
qed

lemma update_one_insert:
  "find_one flt coll = None \<Longrightarrow>
   update_one flt upd True coll =
     (case apply_update True upd flt of Inl e \<Rightarrow> Inl e | Inr d \<Rightarrow> Inr (coll @ [d]))"
  by (induction coll) (auto split: sum.splits if_splits)

lemma find_one_append:
  "find_one flt coll = None \<Longrightarrow> find_one flt (coll @ [d]) = (if matches flt d then Some d else None)"
  by (induction coll) (auto split: if_splits)


lemma mongo_message_obj_facts:
  "distinct (map fst (mongo_message_obj m))"
  "map_of (mongo_message_obj m) ''message_id'' = Some (VInt (msg_id m))"
  "map_of (mongo_message_obj m) ''reply_to'' =
     Some (case msg_reference m of None \<Rightarrow> VNone | Some r \<Rightarrow> VDict r)"
  "map_of (mongo_message_obj m) ''replies'' = None"
  by (simp_all add: mongo_message_obj_def Let_def split: option.splits)

lemma mongo_convert_shape:
  assumes "mongo_convert_message m th = Inr u"
  shows "\<exists>obj. u = mongo_updater obj m \<and> distinct (map fst obj)
           \<and> map_of obj ''message_id'' = Some (VInt (msg_id m))
           \<and> map_of obj ''reply_to'' =
                Some (case msg_reference m of None \<Rightarrow> VNone | Some r \<Rightarrow> VDict r)
           \<and> map_of obj ''replies'' = None"
proof (cases th)
  case None
  with assms have "u = mongo_updater (mongo_message_obj m) m"
    by (simp add: mongo_convert_message_def)
  then show ?thesis using mongo_message_obj_facts by blast
next
  case (Some t)
  with assms obtain x where u: "u = mongo_updater (AList.update ''thread'' x (mongo_message_obj m)) m"
    by (auto simp: mongo_convert_message_def Let_def split: sum.splits)
  show ?thesis
    by (rule exI[of _ "AList.update ''thread'' x (mongo_message_obj m)"])
       (simp add: u distinct_update update_conv' mongo_message_obj_facts)
qed

lemma apply_update_mongo_updater:
  "apply_update b (mongo_updater obj m) d =
     Inr (if b then set_fields [(''message_content'', VStr (msg_content m)), (''processed'', VBool False)]
                     (set_fields obj d)
          else set_fields obj d)"
  by (simp add: apply_update_def mongo_updater_def operator_fields_def Let_def)


lemma mongo_updater_result:
  assumes "distinct (map fst obj)" and "map_of obj ''message_id'' = Some w"
      and "map_of obj ''replies'' = None"
  shows "\<exists>d'. apply_update b (mongo_updater obj m) d = Inr d'
           \<and> map_of d' ''message_id'' = Some w
           \<and> map_of d' ''replies'' = map_of d ''replies''"
proof -
  have "map_of (set_fields obj d) = map_of d ++ map_of obj"
    by (simp add: map_of_set_fields map_of_rev_distinct[OF assms(1)])
  then show ?thesis using assms(2,3)
    by (simp add: apply_update_mongo_updater update_conv' map_add_def)
qed


lemma set_item_mongo_updater:
  "set_item (mongo_updater obj m) k = (case map_of obj k of None \<Rightarrow> Inl KeyError | Some v \<Rightarrow> Inr v)"
  by (simp add: set_item_def getitem_def mongo_updater_def)



lemma MongoStore_message_exists_count:
  "MongoStore_message_exists s i = (0 < count_message_id (VInt i) (messages s))"
  using find_one_None_count[of "VInt i" "messages s"]
  by (auto simp: MongoStore_message_exists_def)


section \<open>The frontier\<close>

lemma py_int_bound: "x - 1 < real_of_int (py_int x)"
  unfolding py_int_def by auto linarith+

text \<open>
  \<open>finish_frontier\<close> returns on both stores, and afterwards the frontier of the channel
  reads as cursor None and scan time \<open>int(now)\<close>.
\<close>

lemma finish_frontier_scan_time:
  assumes "wf_frontiers s"
  shows "\<exists>s'. finish_frontier now c s = Return () s'
           \<and> dict_get (get_frontier s' c) ''previous_scan_time'' (VInt 0) = VInt (py_int now)
           \<and> dict_get (get_frontier s' c) ''id'' VNone = VNone"
proof (cases s)
  case (BasicStore b)
  show ?thesis
    by (simp add: BasicStore finish_frontier_def get_frontier_def BasicStore_set_frontier_def
        BasicStore_get_frontier_def dict_get_def update_conv')
next
  case (MongoStore m)
  let ?flt = "[(''channel_id'', VInt c)]"
  let ?front = "MongoStore_get_frontier m c"
  let ?front2 = "AList.update ''previous_scan_time'' (VInt (py_int now))
                   (AList.update ''id'' VNone ?front)"
  let ?d0 = "case find_one ?flt (frontiers m) of None \<Rightarrow> ?flt | Some d \<Rightarrow> d"
  obtain coll' where
    coll': "update_one ?flt [(''$set'', VDict ?front2)] True (frontiers m) = Inr coll'"
    using update_one_set_only by blast
  have wf2: "distinct (map fst ?front2)"
  proof (cases "find_one ?flt (frontiers m)")
    case None then show ?thesis by (simp add: MongoStore_get_frontier_def)
  next
    case (Some d)
    then have "d \<in> set (frontiers m)" using find_one_matches by blast
    with assms have "wf_doc d" by (simp add: MongoStore list_all_iff)
    then show ?thesis by (simp add: MongoStore_get_frontier_def Some wf_doc_def distinct_update)
  qed
  have m2: "map_of (set_fields ?front2 ?d0) = map_of ?d0 ++ map_of ?front2"
    by (simp add: map_of_set_fields map_of_rev_distinct[OF wf2])
  have ch: "map_of (set_fields ?front2 ?d0) ''channel_id'' = Some (VInt c)"
  proof (cases "find_one ?flt (frontiers m)")
    case None
    then show ?thesis unfolding m2 by (simp add: MongoStore_get_frontier_def map_add_def)
  next
    case (Some d)
    then have "map_of d ''channel_id'' = Some (VInt c)" using find_one_matches[OF Some] by simp
    then show ?thesis unfolding m2
      by (auto simp add: Some MongoStore_get_frontier_def map_add_def update_conv')
  qed
  have pst: "map_of (set_fields ?front2 ?d0) ''previous_scan_time'' = Some (VInt (py_int now))"
    by (simp add: m2 map_add_def update_conv')
  have idn: "map_of (set_fields ?front2 ?d0) ''id'' = Some VNone"
    by (simp add: m2 map_add_def update_conv')
  have f: "find_one ?flt coll' = Some (set_fields ?front2 ?d0)"
    by (rule find_one_after_set[OF coll']) (simp add: ch)
  have ne: "set_fields ?front2 ?d0 \<noteq> []" using ch by auto
  show ?thesis
    using coll' f ne pst idn
    by (simp add: MongoStore finish_frontier_def get_frontier_def MongoStore_set_frontier_def
        frontiers_update_one_def MongoStore_get_frontier_def dict_get_def)
qed

text \<open>
  C6, as the code has it. \<open>should_rescan\<close> compares strictly: a rescan is due exactly
  when \<open>now - previous_scan_time\<close> is greater than the channel's interval, not when it
  is equal to it. Right after \<open>finish_frontier\<close>, which returns normally and stores
  \<open>int(now)\<close>, \<open>should_rescan\<close> is false for every interval of at least one time unit
  (the interval is 60 unless overridden).
\<close>

theorem should_rescan_strict:
  assumes "rescan_interval dm c = Some iv"
      and "dict_get (get_frontier s c) ''previous_scan_time'' (VInt 0) = VInt t"
      and "wf_frontiers s"
      and "1 \<le> iv"
  shows "should_rescan dm now s c = Inr (iv < now - real_of_int t)
       \<and> (\<exists>s'. finish_frontier now c s = Return () s' \<and> should_rescan dm now s' c = Inr False)"
proof -
  have a: "should_rescan dm now s c = Inr (iv < now - real_of_int t)"
    using assms(1,2) by (auto simp add: should_rescan_def)
  obtain s' where s': "finish_frontier now c s = Return () s'"
     and t': "dict_get (get_frontier s' c) ''previous_scan_time'' (VInt 0) = VInt (py_int now)"
    using finish_frontier_scan_time[OF assms(3)] by blast
  have "\<not> real_of_int (py_int now) < now - iv" using py_int_bound[of now] assms(4) by linarith
  then have "should_rescan dm now s' c = Inr False"
    using assms(1) t' by (simp add: should_rescan_def)
  with a s' show ?thesis by blast
qed

text \<open>The theorem at a manager with the default interval, over an empty MongoStore at time 1000.\<close>

theorem should_rescan_strict_witness:
  "rescan_interval (DataManager_init [1] MongoMessageConverter) 1 = Some 60
   \<and> dict_get (get_frontier (MongoStore MongoStore_init) 1) ''previous_scan_time'' (VInt 0) = VInt 0
   \<and> wf_frontiers (MongoStore MongoStore_init)
   \<and> (1::real) \<le> 60
   \<and> should_rescan (DataManager_init [1] MongoMessageConverter) 1000 (MongoStore MongoStore_init) 1
       = Inr True
   \<and> (\<exists>s'. finish_frontier 1000 1 (MongoStore MongoStore_init) = Return () s'
          \<and> should_rescan (DataManager_init [1] MongoMessageConverter) 1000 s' 1 = Inr False)"
proof -
  have h1: "rescan_interval (DataManager_init [1] MongoMessageConverter) 1 = Some 60"
    by (simp add: DataManager_init_def)
  have h2: "dict_get (get_frontier (MongoStore MongoStore_init) 1) ''previous_scan_time'' (VInt 0)
              = VInt 0"
    by (simp add: get_frontier_def MongoStore_get_frontier_def MongoStore_init_def dict_get_def)
  have h3: "wf_frontiers (MongoStore MongoStore_init)"
    by (simp add: MongoStore_init_def)
  have h4: "(1::real) \<le> 60" by simp
  show ?thesis
    using should_rescan_strict[OF h1 h2 h3 h4, of 1000] h1 h2 h3 by simp
qed

text \<open>
  The claim's \<open>\<ge>\<close> fails at the boundary: with the default interval 60, a frontier
  that was never scanned (scan time 0) and the clock at exactly 60, the difference equals
  the interval and \<open>should_rescan\<close> is false.
\<close>

theorem should_rescan_boundary_counterexample:
  "rescan_interval (DataManager_init [1] SimpleMessageConverter) 1 = Some 60
   \<and> dict_get (get_frontier (BasicStore BasicStore_init) 1) ''previous_scan_time'' (VInt 0) = VInt 0
   \<and> (60::real) - real_of_int 0 \<ge> 60
   \<and> should_rescan (DataManager_init [1] SimpleMessageConverter) 60 (BasicStore BasicStore_init) 1
       = Inr False"
  by (simp add: DataManager_init_def get_frontier_def BasicStore_get_frontier_def
      BasicStore_init_def dict_get_def should_rescan_def)

text \<open>
  C8, as the code has it. For a channel with no stored frontier, \<open>BasicStore\<close> returns
  the default dict with \<open>id\<close> None and \<open>previous_scan_time\<close> 0, and \<open>MongoStore\<close>
  returns the empty dict; the manager reads either one with \<open>.get\<close> and its defaults, so
  that on both stores the cursor reads as None and the scan time as 0.
\<close>

theorem get_frontier_absent:
  assumes "no_frontier s c"
  shows "get_frontier s c =
           (case s of MongoStore m \<Rightarrow> []
            | BasicStore b \<Rightarrow> [(''id'', VNone), (''previous_scan_time'', VInt 0)])
       \<and> dict_get (get_frontier s c) ''id'' VNone = VNone
       \<and> dict_get (get_frontier s c) ''previous_scan_time'' (VInt 0) = VInt 0
       \<and> get_frontier_message s c = Inr None"
  using assms
  by (cases s)
     (simp_all add: get_frontier_def MongoStore_get_frontier_def BasicStore_get_frontier_def
        dict_get_def get_frontier_message_def)

text \<open>The theorem at a MongoStore that holds a frontier for channel 2 only, asked for channel 1.\<close>

theorem get_frontier_absent_witness:
  "no_frontier (MongoStore \<lparr>messages = [], frontiers = [[(''channel_id'', VInt 2), (''id'', VInt 9)]]\<rparr>) 1
   \<and> get_frontier (MongoStore \<lparr>messages = [], frontiers = [[(''channel_id'', VInt 2), (''id'', VInt 9)]]\<rparr>) 1 = []
   \<and> get_frontier_message
        (MongoStore \<lparr>messages = [], frontiers = [[(''channel_id'', VInt 2), (''id'', VInt 9)]]\<rparr>) 1
       = Inr None"
proof -
  have h: "no_frontier
             (MongoStore \<lparr>messages = [], frontiers = [[(''channel_id'', VInt 2), (''id'', VInt 9)]]\<rparr>) 1"
    by simp
  show ?thesis using get_frontier_absent[OF h] h by simp
qed

text \<open>
  The value that \<open>MongoStore.get_frontier\<close> returns for an unknown channel is not the
  default dict: it has no \<open>previous_scan_time\<close> key at all.
\<close>

theorem get_frontier_mongo_counterexample:
  "no_frontier (MongoStore MongoStore_init) 1
   \<and> get_frontier (MongoStore MongoStore_init) 1 \<noteq> [(''id'', VNone), (''previous_scan_time'', VInt 0)]
   \<and> getitem (VDict (get_frontier (MongoStore MongoStore_init) 1)) ''previous_scan_time''
       = Inl KeyError"
  by (simp add: MongoStore_init_def get_frontier_def MongoStore_get_frontier_def getitem_def)


section \<open>The steady-state pass\<close>

text \<open>
  A save with \<open>update_frontier = False\<close> never touches a frontier, whether it returns or
  raises, and \<open>_scrape_channel\<close> saves in no other way: on every input, every channel's
  frontier is after \<open>_scrape_channel\<close> what it was before.
\<close>

lemma outcome_state_lift [simp]: "outcome_state (lift_outcome f r) = f (outcome_state r)"
  by (cases r) simp_all

lemma MongoStore_save_messages_frontiers:
  "frontiers (outcome_state (MongoStore_save_messages ups s)) = frontiers s"
proof (cases "map_res message_request ups")
  case (Inl e) then show ?thesis by (simp add: MongoStore_save_messages_def)
next
  case (Inr reqs)
  show ?thesis
  proof (cases "bulk_write reqs (messages s)")
    case (Raise e coll) then show ?thesis by (simp add: MongoStore_save_messages_def Inr)
  next
    case (Return u coll)
    show ?thesis
    proof (cases "reply_requests ups")
      case (Inl e) then show ?thesis by (simp add: MongoStore_save_messages_def Inr Return)
    next
      case r: (Inr replies)
      show ?thesis by (simp add: MongoStore_save_messages_def Inr Return r)
    qed
  qed
qed


lemma store_save_messages_frontier:
  "get_frontier (outcome_state (store_save_messages rs s)) c = get_frontier s c"
proof (cases s)
  case (MongoStore m)
  then show ?thesis
    by (simp add: get_frontier_def MongoStore_get_frontier_def MongoStore_save_messages_frontiers)
next
  case (BasicStore b)
  then show ?thesis
    by (simp add: get_frontier_def BasicStore_get_frontier_def BasicStore_save_messages_def)
qed

lemma save_messages_False_frontier:
  "get_frontier (outcome_state (save_messages dm cl msgs False s)) c = get_frontier s c"
proof (cases "map_res (convert_message dm cl) (filter (\<lambda>m. msg_type m \<noteq> thread_created) msgs)")
  case (Inl e) then show ?thesis by (simp add: save_messages_def)
next
  case (Inr recs)
  show ?thesis
  proof (cases "store_save_messages recs s")
    case (Return u s1)
    with store_save_messages_frontier[of recs s c] show ?thesis
      by (simp add: save_messages_def Inr)
  next
    case (Raise e s1)
    with store_save_messages_frontier[of recs s c] show ?thesis
      by (simp add: save_messages_def Inr)
  qed
qed

lemma scrape_channel_frontier_unchanged:
  "get_frontier (outcome_state (scrape_channel sc cl channel_id s)) c = get_frontier s c"
proof (cases "get_frontier_message s channel_id")
  case (Inl e) then show ?thesis by (simp add: scrape_channel_def)
next
  case fm: (Inr frontier_message)
  show ?thesis
  proof (cases "cl channel_id")
    case None then show ?thesis by (simp add: scrape_channel_def fm)
  next
    case (Some ch)
    show ?thesis
    proof (cases "history ch (limit sc) frontier_message (Some True)")
      case (Inl e) then show ?thesis by (simp add: scrape_channel_def fm Some)
    next
      case (Inr msgs)
      show ?thesis
      proof (cases "save_messages (data_manager sc) cl msgs False s")
        case (Return u s1)
        with save_messages_False_frontier[of "data_manager sc" cl msgs s c] show ?thesis
          by (simp add: scrape_channel_def fm Some Inr process_messages_def)
      next
        case (Raise e s1)
        with save_messages_False_frontier[of "data_manager sc" cl msgs s c] show ?thesis
          by (simp add: scrape_channel_def fm Some Inr process_messages_def)
      qed
    qed
  qed
qed

text \<open>
  C1, at Scenario A (limit 3, messages 1 to 7, cursor 2). The fetch returns the messages
  3, 4, 5 and they are saved, but \<open>_scrape_channel\<close> calls \<open>_process_messages\<close> without
  \<open>update_frontier\<close>, so the save runs with \<open>update_frontier = False\<close>: after the save
  the cursor is still 2, not 5, and the next fetch starts after 2 again.
\<close>

theorem scrape_channel_leaves_cursor:
  "history (example_channel (map example_message [1, 2, 3, 4, 5, 6, 7])) 3 (Some 2) (Some True)
     = Inr (map example_message [3, 4, 5])
   \<and> get_frontier_message scenario_A_store 1 = Inr (Some 2)
   \<and> returned (scrape_channel (example_scraper MongoMessageConverter 3)
        (example_client (map example_message [1, 2, 3, 4, 5, 6, 7])) 1 scenario_A_store)
       = Some False
   \<and> message_exists (outcome_state (scrape_channel (example_scraper MongoMessageConverter 3)
        (example_client (map example_message [1, 2, 3, 4, 5, 6, 7])) 1 scenario_A_store)) 5
       = Inr True
   \<and> get_frontier_message (outcome_state (scrape_channel (example_scraper MongoMessageConverter 3)
        (example_client (map example_message [1, 2, 3, 4, 5, 6, 7])) 1 scenario_A_store)) 1
       = Inr (Some 2)"
  by (simp add: scenario_A_store_def run_defs store_defs conv_defs ex_defs)

text \<open>
  C4, at Scenario B (a channel with no message, never scanned, the clock at 1000). The
  channel is a target, its first fetch is empty, and \<open>save_messages\<close> raises on the empty
  batch: IndexError at \<open>messages[-1]\<close> over a BasicStore, InvalidOperation at the empty
  bulk write over a MongoStore. The pass ends with the exception and \<open>finish_frontier\<close>
  is not reached: the store is as it was.
\<close>

theorem empty_channel_pass_raises:
  "get_targets (DataManager_init [1] SimpleMessageConverter) 1000 (BasicStore BasicStore_init)
     = Inr [1]
   \<and> history (example_channel []) 3 None (Some True) = Inr []
   \<and> scrape_all_channels (example_scraper SimpleMessageConverter 3) (example_client []) 1000
        (\<lambda>k. 1000) (BasicStore BasicStore_init)
       = Some (Raise IndexError (BasicStore BasicStore_init))
   \<and> scrape_all_channels (example_scraper MongoMessageConverter 3) (example_client []) 1000
        (\<lambda>k. 1000) (MongoStore MongoStore_init)
       = Some (Raise InvalidOperation (MongoStore MongoStore_init))"
proof -
  have a: "get_targets (DataManager_init [1] SimpleMessageConverter) 1000 (BasicStore BasicStore_init)
             = Inr [1]"
    by (simp add: run_defs store_defs ex_defs)
  have b: "history (example_channel []) 3 None (Some True) = Inr []"
    by (simp add: run_defs ex_defs)
  have c: "scrape_all_channels (example_scraper SimpleMessageConverter 3) (example_client []) 1000
             (\<lambda>k. 1000) (BasicStore BasicStore_init)
           = Some (Raise IndexError (BasicStore BasicStore_init))"
    apply (simp add: scrape_all_channels_def run_defs store_defs ex_defs)
    apply (subst scrape_loop.simps)
    apply (simp add: run_defs store_defs ex_defs)
    done
  have d: "scrape_all_channels (example_scraper MongoMessageConverter 3) (example_client []) 1000
             (\<lambda>k. 1000) (MongoStore MongoStore_init)
           = Some (Raise InvalidOperation (MongoStore MongoStore_init))"
    apply (simp add: scrape_all_channels_def run_defs store_defs ex_defs)
    apply (subst scrape_loop.simps)
    apply (simp add: run_defs store_defs ex_defs)
    done
  from a b c d show ?thesis by blast
qed

text \<open>
  C2, at a channel with the 7 messages 1 to 7, limit 3, no stored frontier, the clock at
  1000. The claim expects three fetch rounds. Because the cursor is never advanced, every
  round fetches the messages 1, 2, 3 again, the batch always has \<open>limit\<close> items, and the
  \<open>while\<close> loop of \<open>scrape_all_channels\<close> never ends: the result is \<open>None\<close>. A
  channel with fewer than \<open>limit\<close> messages (here 2) does finish, after one round.
\<close>

theorem steady_state_pass_never_ends:
  "scrape_all_channels (example_scraper MongoMessageConverter 3)
     (example_client (map example_message [1, 2, 3, 4, 5, 6, 7])) 1000 (\<lambda>k. 1000 + real k)
     (MongoStore MongoStore_init) = None
   \<and> map_option returned
        (scrape_all_channels (example_scraper MongoMessageConverter 3)
           (example_client (map example_message [1, 2])) 1000 (\<lambda>k. 1000 + real k)
           (MongoStore MongoStore_init)) = Some (Some 1)"
proof -
  let ?sc = "example_scraper MongoMessageConverter 3"
  let ?cl = "example_client (map example_message [1, 2, 3, 4, 5, 6, 7])"
  let ?S0 = "MongoStore MongoStore_init"
  define S1 where "S1 = outcome_state (scrape_channel ?sc ?cl 1 ?S0)"
  let ?P = "\<lambda>sc cl (clock :: nat \<Rightarrow> real) (rounds :: nat) cc (i :: nat) s
              (y :: (nat, store) outcome).
              \<not> (sc = ?sc \<and> cl = ?cl \<and> cc = [1] \<and> (s = ?S0 \<or> s = S1))"
  have step0: "scrape_channel ?sc ?cl 1 ?S0 = Return False S1"
    unfolding S1_def by (simp add: run_defs store_defs conv_defs ex_defs)
  have step1: "scrape_channel ?sc ?cl 1 S1 = Return False S1"
    unfolding S1_def by (simp add: run_defs store_defs conv_defs ex_defs)
  have step: "s = ?S0 \<or> s = S1 \<Longrightarrow> scrape_channel ?sc ?cl 1 s = Return False S1" for s
    using step0 step1 by blast
  have never: "?P sc cl clock rounds cc i s y"
    if run: "scrape_loop sc cl clock rounds cc i s = Some y" for sc cl clock rounds cc i s y
  proof (rule scrape_loop.raw_induct[where P = ?P, OF _ run])
    fix loop sc cl and clock :: "nat \<Rightarrow> real" and rounds cc i s and y :: "(nat, store) outcome"
    assume IH: "\<And>sc cl clock rounds cc i s y. loop sc cl clock rounds cc i s = Some y
                  \<Longrightarrow> ?P sc cl clock rounds cc i s y"
      and body: "(if cc = [] then Some (Return rounds s)
        else let j = i mod length cc
             in case scrape_channel sc cl (cc ! j) s of
                  Return channel_empty s1 \<Rightarrow>
                    if channel_empty
                    then case finish_frontier (clock rounds) (cc ! j) s1 of
                           Return u s2 \<Rightarrow> loop sc cl clock (Suc rounds) (pop j cc) (j + 1) s2
                         | Raise e s2 \<Rightarrow> Some (Raise e s2)
                    else loop sc cl clock (Suc rounds) cc (j + 1) s1
                | Raise e s1 \<Rightarrow> Some (Raise e s1)) = Some y"
    show "?P sc cl clock rounds cc i s y"
    proof
      assume a: "sc = ?sc \<and> cl = ?cl \<and> cc = [1] \<and> (s = ?S0 \<or> s = S1)"
      then have sc: "scrape_channel sc cl 1 s = Return False S1" using step by blast
      from a body sc have "loop sc cl clock (Suc rounds) [1] 1 S1 = Some y"
        by (simp add: Let_def)
      from IH[OF this] a show False by blast
    qed
  qed
  have targets: "get_targets (data_manager ?sc) 1000 ?S0 = Inr [1]"
    by (simp add: run_defs store_defs ex_defs)
  have "scrape_loop ?sc ?cl (\<lambda>k. 1000 + real k) 0 [1] 0 ?S0 = None"
  proof (cases "scrape_loop ?sc ?cl (\<lambda>k. 1000 + real k) 0 [1] 0 ?S0")
    case None then show ?thesis .
  next
    case (Some y)
    from never[OF Some] show ?thesis by blast
  qed
  then have forever: "scrape_all_channels ?sc ?cl 1000 (\<lambda>k. 1000 + real k) ?S0 = None"
    by (simp add: scrape_all_channels_def targets)
  have short: "map_option returned
        (scrape_all_channels ?sc (example_client (map example_message [1, 2])) 1000
           (\<lambda>k. 1000 + real k) ?S0) = Some (Some 1)"
    apply (simp add: scrape_all_channels_def run_defs store_defs ex_defs)
    apply (subst scrape_loop.simps)
    apply (simp add: run_defs store_defs ex_defs conv_defs pop_def py_int_def)
    apply (subst scrape_loop.simps)
    apply simp
    done
  from forever short show ?thesis by blast
qed


section \<open>The catch-up pass\<close>

text \<open>
  C3, at Scenario C (limit 5, delivered 10, 9, 8, 7, 6, of which 6 and 7 are stored). At
  the known message 7 the loop of \<open>_scrape_unseen_only\<close> executes \<open>return\<close>, which
  leaves the function before \<open>_process_messages\<close>: the collected messages 10, 9, 8 are
  not saved and the store is unchanged.
\<close>

theorem scrape_unseen_only_drops_collected:
  "history (example_channel (map example_message [6, 7, 8, 9, 10])) 5 None None
     = Inr (map example_message [10, 9, 8, 7, 6])
   \<and> message_exists scenario_C_store 7 = Inr True
   \<and> message_exists scenario_C_store 8 = Inr False
   \<and> scrape_unseen_only (example_scraper SimpleMessageConverter 5)
        (example_client (map example_message [6, 7, 8, 9, 10])) 1 scenario_C_store
       = Return () scenario_C_store
   \<and> message_exists (outcome_state (scrape_unseen_only (example_scraper SimpleMessageConverter 5)
        (example_client (map example_message [6, 7, 8, 9, 10])) 1 scenario_C_store)) 10
       = Inr False"
  by (simp add: scenario_C_store_def run_defs store_defs conv_defs ex_defs)


section \<open>Saving a batch\<close>

text \<open>
  Whenever \<open>save_messages\<close> with \<open>update_frontier = True\<close> returns, the batch was not
  empty, the store was given the converted forms of exactly the items that are not
  \<open>thread_created\<close> notifications, and the cursor of the last item's channel is the
  identifier of the last item of the batch, notification or not.
\<close>

lemma store_update_frontier_cursor:
  "\<exists>s'. store_update_frontier c n s = Return () s'
         \<and> dict_get (get_frontier s' c) ''id'' VNone = VInt n
         \<and> stored_messages s' = stored_messages s"
proof (cases s)
  case (BasicStore b)
  then show ?thesis
    by (simp add: BasicStore_update_frontier_def get_frontier_def BasicStore_get_frontier_def
        dict_get_def update_conv')
next
  case (MongoStore m)
  let ?flt = "[(''channel_id'', VInt c)]"
  let ?fs = "[(''id'', VInt n)]"
  let ?d0 = "case find_one ?flt (frontiers m) of None \<Rightarrow> ?flt | Some d \<Rightarrow> d"
  obtain coll' where coll': "update_one ?flt [(''$set'', VDict ?fs)] True (frontiers m) = Inr coll'"
    using update_one_set_only by blast
  have ch: "map_of ?d0 ''channel_id'' = Some (VInt c)"
  proof (cases "find_one ?flt (frontiers m)")
    case None then show ?thesis by simp
  next
    case (Some d) with find_one_matches[OF Some] show ?thesis by simp
  qed
  then have m: "matches ?flt (set_fields ?fs ?d0)" by (simp add: update_conv')
  have f: "find_one ?flt coll' = Some (set_fields ?fs ?d0)"
    by (rule find_one_after_set[OF coll' m])
  have ne: "set_fields ?fs ?d0 \<noteq> []" using m by auto
  have idn: "map_of (set_fields ?fs ?d0) ''id'' = Some (VInt n)" by (simp add: update_conv')
  show ?thesis
    using coll' f ne idn
    by (simp add: MongoStore MongoStore_update_frontier_def frontiers_update_one_def
        get_frontier_def MongoStore_get_frontier_def dict_get_def)
qed

lemma save_messages_returns:
  assumes "save_messages dm cl msgs True s = Return () s'"
  shows "msgs \<noteq> []
       \<and> dict_get (get_frontier s' (msg_channel_id (last msgs))) ''id'' VNone = VInt (msg_id (last msgs))
       \<and> (\<exists>recs s1. map_res (convert_message dm cl) (filter (\<lambda>m. msg_type m \<noteq> thread_created) msgs)
                        = Inr recs
              \<and> store_save_messages recs s = Return () s1
              \<and> stored_messages s' = stored_messages s1)"
proof (cases "map_res (convert_message dm cl) (filter (\<lambda>m. msg_type m \<noteq> thread_created) msgs)")
  case (Inl e) with assms show ?thesis by (simp add: save_messages_def)
next
  case (Inr recs)
  show ?thesis
  proof (cases "store_save_messages recs s")
    case (Raise e s1) with assms Inr show ?thesis by (simp add: save_messages_def)
  next
    case (Return u s1)
    with assms Inr have ne: "msgs \<noteq> []"
      and upd: "store_update_frontier (msg_channel_id (last msgs)) (msg_id (last msgs)) s1 = Return () s'"
      by (auto simp add: save_messages_def Let_def split: if_splits)
    from store_update_frontier_cursor[of "msg_channel_id (last msgs)" "msg_id (last msgs)" s1] upd
    have "dict_get (get_frontier s' (msg_channel_id (last msgs))) ''id'' VNone = VInt (msg_id (last msgs))"
      and "stored_messages s' = stored_messages s1"
      by auto
    with ne Inr Return show ?thesis by simp
  qed
qed

text \<open>
  C7, at a batch that holds only a \<open>thread_created\<close> notification, saved with
  \<open>update_frontier = True\<close>. Over a MongoStore the filtered list is empty, the unguarded
  \<open>bulk_write\<close> of \<open>MongoStore.save_messages\<close> raises InvalidOperation and the cursor is
  not advanced. Over a BasicStore the same batch stores nothing and moves the cursor to the
  notification's identifier, and so does a MongoStore when the batch also holds a message
  that is not a notification.
\<close>

theorem save_messages_marker_only_batch:
  "save_messages (DataManager_init [1] MongoMessageConverter) (example_client [])
     [example_marker 4] True (MongoStore MongoStore_init)
     = Raise InvalidOperation (MongoStore MongoStore_init)
   \<and> get_frontier_message (MongoStore MongoStore_init) 1 = Inr None
   \<and> save_messages (DataManager_init [1] SimpleMessageConverter) (example_client [])
        [example_marker 4] True (BasicStore BasicStore_init)
       = Return () (BasicStore \<lparr>basic_messages = [],
           frontier = [1 \<mapsto> [(''id'', VInt 4), (''previous_scan_time'', VInt 0)]]\<rparr>)
   \<and> get_frontier_message (outcome_state (save_messages (DataManager_init [1] MongoMessageConverter)
        (example_client []) [example_message 3, example_marker 4] True (MongoStore MongoStore_init))) 1
       = Inr (Some 4)
   \<and> message_exists (outcome_state (save_messages (DataManager_init [1] MongoMessageConverter)
        (example_client []) [example_message 3, example_marker 4] True (MongoStore MongoStore_init))) 4
       = Inr False"
  by (simp add: run_defs store_defs conv_defs ex_defs)

lemma map_res_fails:
  "x \<in> set xs \<Longrightarrow> f x = Inl e \<Longrightarrow> \<exists>e'. map_res f xs = Inl e'"
  by (induction xs) (auto split: sum.splits)

text \<open>
  C9, as the code has it. \<open>save_messages\<close> converts the whole batch in one list
  comprehension with no exception handler: when the conversion of any item that is not a
  \<open>thread_created\<close> notification fails, the exception leaves \<open>save_messages\<close> before the
  store is called. No item of the batch is saved and the frontier is not advanced.
\<close>

theorem conversion_failure_aborts_batch:
  assumes "m \<in> set msgs"
      and "msg_type m \<noteq> thread_created"
      and "convert_message dm cl m = Inl e"
  shows "\<exists>e'. save_messages dm cl msgs update_frontier s = Raise e' s"
proof -
  from assms(1,2) have "m \<in> set (filter (\<lambda>m. msg_type m \<noteq> thread_created) msgs)" by simp
  from map_res_fails[of m _ "convert_message dm cl" e, OF this assms(3)] obtain e' where
    "map_res (convert_message dm cl) (filter (\<lambda>m. msg_type m \<noteq> thread_created) msgs) = Inl e'"
    by blast
  then show ?thesis by (simp add: save_messages_def)
qed

text \<open>The theorem at a batch of three messages whose second one has a thread that cannot be read.\<close>

theorem conversion_failure_aborts_batch_witness:
  "example_thread_starter 2 \<in> set [example_message 1, example_thread_starter 2, example_message 3]
   \<and> msg_type (example_thread_starter 2) \<noteq> thread_created
   \<and> convert_message (DataManager_init [1] MongoMessageConverter) (failing_thread_client [])
        (example_thread_starter 2) = Inl HTTPException
   \<and> (\<exists>e'. save_messages (DataManager_init [1] MongoMessageConverter) (failing_thread_client [])
          [example_message 1, example_thread_starter 2, example_message 3] True
          (MongoStore MongoStore_init)
        = Raise e' (MongoStore MongoStore_init))"
proof -
  have h1: "example_thread_starter 2
              \<in> set [example_message 1, example_thread_starter 2, example_message 3]"
    by simp
  have h2: "msg_type (example_thread_starter 2) \<noteq> thread_created"
    by (simp add: ex_defs thread_created_def)
  have h3: "convert_message (DataManager_init [1] MongoMessageConverter) (failing_thread_client [])
              (example_thread_starter 2) = Inl HTTPException"
    by (simp add: conv_defs ex_defs)
  from conversion_failure_aborts_batch[OF h1 h2 h3] h1 h2 h3 show ?thesis by blast
qed

text \<open>
  The claim fails there: the first and the third message convert without error, yet after
  the call neither is stored, and the cursor has not moved.
\<close>

theorem conversion_failure_counterexample:
  "convert_message (DataManager_init [1] MongoMessageConverter) (failing_thread_client [])
     (example_message 1) = Inr (mongo_updater (mongo_message_obj (example_message 1)) (example_message 1))
   \<and> convert_message (DataManager_init [1] MongoMessageConverter) (failing_thread_client [])
        (example_message 3) = Inr (mongo_updater (mongo_message_obj (example_message 3)) (example_message 3))
   \<and> save_messages (DataManager_init [1] MongoMessageConverter) (failing_thread_client [])
        [example_message 1, example_thread_starter 2, example_message 3] True
        (MongoStore MongoStore_init)
       = Raise HTTPException (MongoStore MongoStore_init)
   \<and> message_exists (outcome_state (save_messages (DataManager_init [1] MongoMessageConverter)
        (failing_thread_client [])
        [example_message 1, example_thread_starter 2, example_message 3] True
        (MongoStore MongoStore_init))) 1 = Inr False
   \<and> message_exists (outcome_state (save_messages (DataManager_init [1] MongoMessageConverter)
        (failing_thread_client [])
        [example_message 1, example_thread_starter 2, example_message 3] True
        (MongoStore MongoStore_init))) 3 = Inr False"
  by (simp add: run_defs store_defs conv_defs ex_defs)


section \<open>Saving the same item twice\<close>






















text \<open>
  Why the theorem asks for what it asks. A BasicStore fed by the MongoMessageConverter
  holds records without a top-level \<open>message_id\<close>, and \<open>message_exists\<close> raises
  KeyError on them. A reference without \<open>message_id\<close> makes \<open>MongoStore.save_messages\<close>
  raise KeyError while it builds the reply requests, after the message's document was written.
\<close>

lemma basic_store_mongo_converter_raises:
  "message_exists (outcome_state
      (save_message (DataManager_init [1] MongoMessageConverter) (example_client [])
         (example_message 5) False (BasicStore BasicStore_init))) 5 = Inl KeyError"
  by (simp add: run_defs store_defs conv_defs ex_defs)

lemma reference_without_message_id_raises:
  "\<not> reference_ok (example_follow 5)
   \<and> returned (store_save_message
        (mongo_updater (mongo_message_obj (example_follow 5)) (example_follow 5))
        (MongoStore MongoStore_init)) = None
   \<and> message_exists (outcome_state (store_save_message
        (mongo_updater (mongo_message_obj (example_follow 5)) (example_follow 5))
        (MongoStore MongoStore_init))) 5 = Inr True"
  by (simp add: reference_ok_def example_follow_def run_defs store_defs conv_defs ex_defs)


section \<open>Replies and the catch-up pass\<close>

text \<open>The loop of \<open>_scrape_unseen_only\<close> returns at the first delivered message that is stored.\<close>

lemma collect_unseen_stops:
  assumes "message_exists st (msg_id x) = Inr True"
      and "list_all (\<lambda>y. message_exists st (msg_id y) = Inr False) pre"
  shows "collect_unseen st (pre @ x # rest) acc = Inr None"
  using assms by (induction pre arbitrary: acc) auto

text \<open>
  C10. A message that replies to a parent \<open>p\<close> with no document in the MongoStore is
  saved: the second bulk write upserts a document for \<open>p\<close> that holds only the
  identifier and the \<open>replies\<close> array, so \<open>message_exists p\<close> is true afterwards
  although the parent was never saved. A catch-up pass over a channel that delivers the
  parent after messages not yet stored returns at the parent, leaving the store as it is.
\<close>

theorem reply_creates_phantom_parent:
  assumes conv: "mongo_convert_message m th = Inr u"
      and ref: "msg_reference m = Some r"
      and par: "map_of r ''message_id'' = Some (VInt p)"
      and ne: "p \<noteq> msg_id m"
      and absent: "\<not> MongoStore_message_exists s p"
  shows "\<exists>s'. MongoStore_save_message u s = Return () s'
           \<and> MongoStore_message_exists s' p
           \<and> find_one [(''message_id'', VInt p)] (messages s')
               = Some [(''message_id'', VInt p), (''replies'', VList [VInt (msg_id m)])]
           \<and> (\<forall>sc cl c ch pre x rest.
                 cl c = Some ch \<longrightarrow> history ch (limit sc) None None = Inr (pre @ x # rest)
                 \<longrightarrow> msg_id x = p
                 \<longrightarrow> list_all (\<lambda>y. \<not> MongoStore_message_exists s' (msg_id y)) pre
                 \<longrightarrow> scrape_unseen_only sc cl c (MongoStore s') = Return () (MongoStore s'))"
proof -
  let ?i = "VInt (msg_id m)"
  let ?flt = "[(''message_id'', VInt p)]"
  let ?upd = "[(''$addToSet'', VDict [(''replies'', ?i)])]"
  let ?stub = "[(''message_id'', VInt p), (''replies'', VList [?i])]"
  from mongo_convert_shape[OF conv] obtain obj where
    u: "u = mongo_updater obj m" and dist: "distinct (map fst obj)"
    and mid: "map_of obj ''message_id'' = Some ?i"
    and rto: "map_of obj ''reply_to'' = Some (case msg_reference m of None \<Rightarrow> VNone | Some r \<Rightarrow> VDict r)"
    and nrep: "map_of obj ''replies'' = None"
    by blast
  have good1: "\<exists>d'. apply_update b u d = Inr d' \<and> True
                 \<and> (map_of d ''message_id'' = Some ?i \<longrightarrow> map_of d' ''message_id'' = Some ?i)"
    if "True" for b d
    using mongo_updater_result[OF dist mid nrep, of b m d] by (auto simp: u)
  have all_true: "list_all (\<lambda>d. True) (messages s)" by (simp add: list_all_iff)
  from update_one_upsert_count[of "\<lambda>d. True" u ?i, OF good1 all_true] obtain coll1 where
    c1: "update_one [(''message_id'', ?i)] u True (messages s) = Inr coll1"
    and cnt1: "\<forall>v. count_message_id v coll1 =
                 (if v = ?i then max 1 (count_message_id ?i (messages s))
                  else count_message_id v (messages s))"
    by blast
  from absent have "count_message_id (VInt p) (messages s) = 0"
    by (simp add: MongoStore_message_exists_count)
  with cnt1 ne have "count_message_id (VInt p) coll1 = 0" by simp
  then have none1: "find_one ?flt coll1 = None" by (simp add: find_one_None_count)
  have req: "map_res message_request [u] = Inr [UpdateOne [(''message_id'', ?i)] u True]"
    by (simp add: message_request_def u set_item_mongo_updater mid)
  have bw1: "bulk_write [UpdateOne [(''message_id'', ?i)] u True] (messages s) = Return () coll1"
    by (simp add: bulk_write_def c1)
  from par have rne: "r \<noteq> []" by auto
  have rr: "reply_requests [u] = Inr [UpdateOne ?flt ?upd True]"
    by (simp add: u set_item_mongo_updater rto mid ref rne getitem_def par)
  have stub: "apply_update True ?upd ?flt = Inr ?stub"
    by (simp add: apply_update_def operator_fields_def Let_def)
  have bw2: "bulk_write [UpdateOne ?flt ?upd True] coll1 = Return () (coll1 @ [?stub])"
    by (simp add: bulk_write_def update_one_insert[OF none1] stub)
  let ?s' = "s\<lparr>messages := coll1 @ [?stub]\<rparr>"
  have save: "MongoStore_save_message u s = Return () ?s'"
    by (simp add: MongoStore_save_message_def MongoStore_save_messages_def req bw1 rr bw2
        del: reply_requests.simps map_res.simps)
  have found: "find_one ?flt (messages ?s') = Some ?stub"
    by (simp add: find_one_append[OF none1])
  then have ex: "MongoStore_message_exists ?s' p" by (simp add: MongoStore_message_exists_def)
  have stop: "scrape_unseen_only sc cl c (MongoStore ?s') = Return () (MongoStore ?s')"
    if ch: "cl c = Some ch" and h: "history ch (limit sc) None None = Inr (pre @ x # rest)"
      and x: "msg_id x = p" and pre: "list_all (\<lambda>y. \<not> MongoStore_message_exists ?s' (msg_id y)) pre"
    for sc cl c ch pre x rest
  proof -
    have "collect_unseen (MongoStore ?s') (pre @ x # rest) [] = Inr None"
    proof (rule collect_unseen_stops)
      show "message_exists (MongoStore ?s') (msg_id x) = Inr True"
        using ex x by (simp add: message_exists_def)
      show "list_all (\<lambda>y. message_exists (MongoStore ?s') (msg_id y) = Inr False) pre"
        using pre by (simp add: message_exists_def list_all_iff)
    qed
    then show ?thesis by (simp add: scrape_unseen_only_def ch h)
  qed
  from save ex found stop show ?thesis by blast
qed

text \<open>
  The theorem at message 5 replying to message 3, saved into an empty MongoStore; the
  catch-up pass over the messages 2, 3, 4 then stops at the stub of 3, and message 4 is not
  stored.
\<close>

theorem reply_creates_phantom_parent_witness:
  "mongo_convert_message (example_reply 5 3) None
     = Inr (mongo_updater (mongo_message_obj (example_reply 5 3)) (example_reply 5 3))
   \<and> msg_reference (example_reply 5 3) = Some [(''message_id'', VInt 3), (''channel_id'', VInt 1)]
   \<and> map_of [(''message_id'', VInt 3), (''channel_id'', VInt 1)] ''message_id'' = Some (VInt 3)
   \<and> 3 \<noteq> msg_id (example_reply 5 3)
   \<and> \<not> MongoStore_message_exists MongoStore_init 3
   \<and> (\<exists>s'. MongoStore_save_message
                (mongo_updater (mongo_message_obj (example_reply 5 3)) (example_reply 5 3))
                MongoStore_init = Return () s'
          \<and> MongoStore_message_exists s' 3
          \<and> find_one [(''message_id'', VInt 3)] (messages s')
              = Some [(''message_id'', VInt 3), (''replies'', VList [VInt 5])]
          \<and> \<not> MongoStore_message_exists s' 4
          \<and> scrape_unseen_only (example_scraper MongoMessageConverter 5)
                (example_client (map example_message [2, 3, 4])) 1 (MongoStore s')
              = Return () (MongoStore s'))"
proof -
  let ?m = "example_reply 5 3"
  let ?u = "mongo_updater (mongo_message_obj ?m) ?m"
  let ?sc = "example_scraper MongoMessageConverter 5"
  let ?cl = "example_client (map example_message [2, 3, 4])"
  have h1: "mongo_convert_message ?m None = Inr ?u"
    by (simp add: mongo_convert_message_def)
  have h2: "msg_reference ?m = Some [(''message_id'', VInt 3), (''channel_id'', VInt 1)]"
    by (simp add: ex_defs)
  have h3: "map_of [(''message_id'', VInt 3), (''channel_id'', VInt 1)] ''message_id'' = Some (VInt 3)"
    by simp
  have h4: "3 \<noteq> msg_id ?m" by (simp add: ex_defs)
  have h5: "\<not> MongoStore_message_exists MongoStore_init 3"
    by (simp add: ex_defs MongoStore_message_exists_def)
  have i: "msg_id ?m = 5" by (simp add: ex_defs)
  from reply_creates_phantom_parent[OF h1 h2 h3 h4 h5, unfolded i] obtain s' where
    save: "MongoStore_save_message ?u MongoStore_init = Return () s'"
    and ex: "MongoStore_message_exists s' 3"
    and stub: "find_one [(''message_id'', VInt 3)] (messages s')
                 = Some [(''message_id'', VInt 3), (''replies'', VList [VInt 5])]"
    and stop: "\<And>sc cl c ch pre x rest.
                 cl c = Some ch \<Longrightarrow> history ch (limit sc) None None = Inr (pre @ x # rest)
                 \<Longrightarrow> msg_id x = 3
                 \<Longrightarrow> list_all (\<lambda>y. \<not> MongoStore_message_exists s' (msg_id y)) pre
                 \<Longrightarrow> scrape_unseen_only sc cl c (MongoStore s') = Return () (MongoStore s')"
    by blast
  have "MongoStore_message_exists (outcome_state (MongoStore_save_message ?u MongoStore_init)) 4 = False"
    by (simp add: store_defs conv_defs ex_defs)
  with save have n4: "\<not> MongoStore_message_exists s' 4" by simp
  have ch: "?cl 1 = Some (example_channel (map example_message [2, 3, 4]))"
    by (simp add: example_client_def)
  have hist: "history (example_channel (map example_message [2, 3, 4])) (limit ?sc) None None
                = Inr ([example_message 4] @ example_message 3 # [example_message 2])"
    by (simp add: history_def example_channel_def example_scraper_def)
  have x: "msg_id (example_message 3) = 3" by (simp add: example_message_def)
  have pre: "list_all (\<lambda>y. \<not> MongoStore_message_exists s' (msg_id y)) [example_message 4]"
    using n4 by (simp add: example_message_def)
  note run = stop[of ?cl 1 "example_channel (map example_message [2, 3, 4])" ?sc
      "[example_message 4]" "example_message 3" "[example_message 2]", OF ch hist x pre]
  from h1 h2 h3 h4 h5 save ex stub n4 run show ?thesis by blast
qed

end
